theory Spec2Isabelle
  imports Main "HOL-Library.Word"
begin

section \<open>Data model (src/types.ts)\<close>

text \<open>
  A JavaScript string is a sequence of 16-bit code units. The text the user types is
  modelled so, since \<^verbatim>\<open>trim\<close> looks at its code units. The other strings of the
  program (payloads, MIME types, identifiers, error messages) are only stored, compared or
  split at a comma, and stay lists of characters. \<open>ascii\<close> gives the code units of an ASCII
  literal.
\<close>

type_synonym js_string = "16 word list"

definition ascii :: "string \<Rightarrow> js_string" where
  "ascii s = map (\<lambda>c. of_nat (of_char c)) s"

text \<open>
  \<^verbatim>\<open>ImageData { base64: string; mimeType: string }\<close> and
  \<^verbatim>\<open>ChatMessage { id: string; role: 'user'; content: string }\<close>.
  The field \<^verbatim>\<open>id\<close> is written \<open>msg_id\<close>, since \<open>id\<close> is the identity function of HOL.
  The declared types are not checked when the program runs: \<^verbatim>\<open>base64\<close> holds whatever
  was assigned to it, and two assignments can store \<^verbatim>\<open>undefined\<close> (the data of an
  inline part that has none, and the second piece of a string split at a comma). So
  \<open>base64\<close> is optional here, \<open>None\<close> for \<^verbatim>\<open>undefined\<close>.
\<close>

record ImageData =
  base64 :: "string option"
  mimeType :: string

datatype role = User

record ChatMessage =
  msg_id :: string
  role :: role
  content :: js_string

section \<open>JavaScript primitives used by the code\<close>

text \<open>
  \<^verbatim>\<open>xs.slice(start, end)\<close>: a negative index counts from the end, and both indices are
  clamped to the array.
\<close>

definition slice_js :: "'a list \<Rightarrow> int \<Rightarrow> int \<Rightarrow> 'a list" where
  "slice_js xs start fin =
     (let len = int (length xs);
          k = (if start < 0 then max (len + start) 0 else min start len);
          e = (if fin < 0 then max (len + fin) 0 else min fin len)
      in take (nat (e - k)) (drop (nat k) xs))"

text \<open>
  \<^verbatim>\<open>xs[i]\<close>: \<^verbatim>\<open>undefined\<close> out of range. \<^verbatim>\<open>undefined\<close> and \<^verbatim>\<open>null\<close> are both
  written \<open>None\<close>: the code only ever tests such a value for truthiness.
\<close>

definition index_js :: "'a list \<Rightarrow> int \<Rightarrow> 'a option" where
  "index_js xs i = (if 0 \<le> i \<and> i < int (length xs) then Some (xs ! nat i) else None)"

text \<open>
  \<^verbatim>\<open>s.trim()\<close> removes white space and line terminators at both ends. In ECMAScript
  these are: tab, vertical tab, form feed, the byte order mark U+FEFF and the space
  separators of Unicode (U+0020, U+00A0, U+1680, U+2000 to U+200A, U+202F, U+205F, U+3000);
  line feed, carriage return, U+2028 and U+2029. Each is one code unit.
\<close>

definition white_space :: "16 word \<Rightarrow> bool" where
  "white_space c \<longleftrightarrow>
     c \<in> set [0x0009, 0x000A, 0x000B, 0x000C, 0x000D, 0x0020, 0x00A0, 0x1680,
              0x2028, 0x2029, 0x202F, 0x205F, 0x3000, 0xFEFF] \<or>
     (0x2000 \<le> c \<and> c \<le> 0x200A)"

definition trim :: "js_string \<Rightarrow> js_string" where
  "trim s = rev (dropWhile white_space (rev (dropWhile white_space s)))"

text \<open>\<^verbatim>\<open>n.toString()\<close> of a non-negative integer: its decimal digits.\<close>

definition digit_char :: "nat \<Rightarrow> char" where
  "digit_char d = ''0123456789'' ! d"

fun toString_nat :: "nat \<Rightarrow> string" where
  "toString_nat n =
     (if n < 10 then [digit_char n] else toString_nat (n div 10) @ [digit_char (n mod 10)])"

declare toString_nat.simps [simp del]

text \<open>
  A thrown value: an \<^verbatim>\<open>Error\<close> object with its message, or anything else
  (\<^verbatim>\<open>err instanceof Error\<close> is all the code asks of it).
\<close>

datatype thrown = Error string | NotAnError

section \<open>The remote edit call (\<^verbatim>\<open>editImageWithGemini\<close>)\<close>

text \<open>
  The types of the client library are not part of the repository; they are modelled as far
  as the function reads them. A \<^verbatim>\<open>Part\<close> carries optional inline data and optional
  text; the data and the MIME type of inline data are optional as well, and so is every
  level of the response read through \<^verbatim>\<open>?.\<close>.
\<close>

record Blob =
  blob_data :: "string option"
  blob_mimeType :: "string option"

record Part =
  inlineData :: "Blob option"
  part_text :: "js_string option"

record Content =
  parts :: "Part list option"

record Candidate =
  cand_content :: "Content option"

record GenerateContentResponse =
  candidates :: "Candidate list option"

datatype Modality = IMAGE

record GenerateContentRequest =
  req_model :: string
  req_parts :: "Part list"
  req_responseModalities :: "Modality list"

text \<open>What \<^verbatim>\<open>await ai.models.generateContent(...)\<close> does: it throws or it answers.\<close>

datatype api_outcome = Throws thrown | Responds GenerateContentResponse

definition mask_prompt :: "js_string \<Rightarrow> js_string" where
  "mask_prompt p =
     ascii (''This is an image editing task. You are provided with an image and a mask. '' @
            ''The user'' @ [CHR 0x27] @
            ''s prompt should be applied to the area highlighted by the mask. '' @
            ''Output only the modified image. User prompt: '' @ [CHR 0x22]) @
     p @ ascii [CHR 0x22]"

text \<open>Lines 12 to 41: the image, then the mask if there is one, then the text.\<close>

definition edit_request ::
  "js_string \<Rightarrow> ImageData \<Rightarrow> ImageData option \<Rightarrow> GenerateContentRequest" where
  "edit_request p img m =
     (let image_part = \<lparr>inlineData = Some \<lparr>blob_data = base64 img,
                                              blob_mimeType = Some (mimeType img)\<rparr>,
                         part_text = None\<rparr>;
          mask_parts = (case m of
                          None \<Rightarrow> []
                        | Some mk \<Rightarrow> [\<lparr>inlineData = Some \<lparr>blob_data = base64 mk,
                                                             blob_mimeType = Some (mimeType mk)\<rparr>,
                                        part_text = None\<rparr>]);
          finalPrompt = (case m of None \<Rightarrow> p | Some mk \<Rightarrow> mask_prompt p)
      in \<lparr>req_model = ''gemini-2.5-flash-image'',
          req_parts = image_part # mask_parts @ [\<lparr>inlineData = None, part_text = Some finalPrompt\<rparr>],
          req_responseModalities = [IMAGE]\<rparr>)"

text \<open>\<^verbatim>\<open>response.candidates?.[0]?.content?.parts || []\<close>\<close>

definition response_parts :: "GenerateContentResponse \<Rightarrow> Part list" where
  "response_parts r =
     (case candidates r of
        None \<Rightarrow> []
      | Some cs \<Rightarrow>
          (case index_js cs 0 of
             None \<Rightarrow> []
           | Some c \<Rightarrow>
               (case cand_content c of
                  None \<Rightarrow> []
                | Some ct \<Rightarrow> (case parts ct of None \<Rightarrow> [] | Some ps \<Rightarrow> ps))))"

text \<open>
  The \<^verbatim>\<open>for\<close> loop of lines 43 to 47: at the first part whose \<^verbatim>\<open>inlineData\<close> is
  present (an object, so truthy) it returns \<^verbatim>\<open>part.inlineData.data\<close>, whether that is
  a string or \<^verbatim>\<open>undefined\<close>; the outer \<open>None\<close> is the loop running to its end.
\<close>

fun first_inline :: "Part list \<Rightarrow> string option option" where
  "first_inline [] = None"
| "first_inline (p # ps) =
     (case inlineData p of Some b \<Rightarrow> Some (blob_data b) | None \<Rightarrow> first_inline ps)"

text \<open>
  The body of the \<^verbatim>\<open>try\<close> block, given what the remote call did. \<open>Inr None\<close> is the
  promise resolving with \<^verbatim>\<open>undefined\<close>.
\<close>

definition edit_try :: "api_outcome \<Rightarrow> thrown + string option" where
  "edit_try out =
     (case out of
        Throws e \<Rightarrow> Inl e
      | Responds r \<Rightarrow>
          (case first_inline (response_parts r) of
             Some d \<Rightarrow> Inr d
           | None \<Rightarrow> Inl (Error ''No image data found in the API response.'')))"

text \<open>The \<^verbatim>\<open>catch\<close> block: whatever was thrown, one new \<^verbatim>\<open>Error\<close> is thrown.\<close>

definition edit_result :: "api_outcome \<Rightarrow> thrown + string option" where
  "edit_result out =
     (case edit_try out of
        Inl e \<Rightarrow> Inl (Error ''Failed to process the image edit. Please try again.'')
      | Inr d \<Rightarrow> Inr d)"

definition editImageWithGemini ::
  "(GenerateContentRequest \<Rightarrow> api_outcome) \<Rightarrow> js_string \<Rightarrow> ImageData \<Rightarrow> ImageData option \<Rightarrow>
     thrown + string option" where
  "editImageWithGemini api p img m = edit_result (api (edit_request p img m))"

section \<open>The state of \<^verbatim>\<open>App\<close> and its handlers\<close>

text \<open>
  The eight \<^verbatim>\<open>useState\<close> cells of \<^verbatim>\<open>App\<close>. \<^verbatim>\<open>image\<close> and \<^verbatim>\<open>mask\<close> are written
  \<open>image_st\<close> and \<open>mask_st\<close> (\<open>image\<close> and \<open>mask\<close> are constants of HOL).
\<close>

record app_state =
  image_st :: "ImageData option"
  messages :: "ChatMessage list"
  prompt :: js_string
  loading :: bool
  error :: "string option"
  history :: "ImageData list"
  historyIndex :: int
  mask_st :: "ImageData option"

definition initial :: app_state where
  "initial = \<lparr>image_st = None, messages = [], prompt = [], loading = False, error = None,
              history = [], historyIndex = - 1, mask_st = None\<rparr>"

text \<open>
  \<^verbatim>\<open>handleImageUpload\<close> awaits \<^verbatim>\<open>fileToData\<close>: the part before the \<^verbatim>\<open>await\<close>, and
  the part after it, given the file's image or what was thrown.
\<close>

definition handleImageUpload_start :: "app_state \<Rightarrow> app_state" where
  "handleImageUpload_start s = s\<lparr>loading := True, error := None\<rparr>"

definition handleImageUpload_finish :: "thrown + ImageData \<Rightarrow> app_state \<Rightarrow> app_state" where
  "handleImageUpload_finish r s =
     (case r of
        Inr imageData \<Rightarrow>
          s\<lparr>image_st := Some imageData, history := [imageData], historyIndex := 0,
            messages := [], mask_st := None, loading := False\<rparr>
      | Inl err \<Rightarrow>
          s\<lparr>error := Some ''Failed to load image. Please try another file.'', loading := False\<rparr>)"

definition handleImageUpload :: "thrown + ImageData \<Rightarrow> app_state \<Rightarrow> app_state" where
  "handleImageUpload r s = handleImageUpload_finish r (handleImageUpload_start s)"

text \<open>
  \<^verbatim>\<open>handleSubmitPrompt\<close> closes over \<^verbatim>\<open>image\<close>, \<^verbatim>\<open>history\<close>, \<^verbatim>\<open>historyIndex\<close> and
  \<^verbatim>\<open>mask\<close> as they are when it is called; after the \<^verbatim>\<open>await\<close> it still reads those
  values, while the functional update of \<^verbatim>\<open>messages\<close> reads the state of that moment.
\<close>

record closure =
  c_prompt :: js_string
  c_image :: ImageData
  c_history :: "ImageData list"
  c_historyIndex :: int
  c_mask :: "ImageData option"

text \<open>
  Lines 415 to 425, up to the remote call. The second component is the call that is about
  to be made: \<open>None\<close> when the handler has returned without calling.
\<close>

definition handleSubmitPrompt_start ::
  "nat \<Rightarrow> js_string \<Rightarrow> app_state \<Rightarrow> app_state \<times> closure option" where
  "handleSubmitPrompt_start now currentPrompt s =
     (case image_st s of
        None \<Rightarrow> (s\<lparr>error := Some ''Please upload an image before submitting a prompt.''\<rparr>, None)
      | Some img \<Rightarrow>
          (let newMessage = \<lparr>msg_id = toString_nat now, role = User, content = currentPrompt\<rparr>
           in (s\<lparr>loading := True, error := None, prompt := [],
                  messages := messages s @ [newMessage]\<rparr>,
               Some \<lparr>c_prompt = currentPrompt, c_image = img, c_history = history s,
                     c_historyIndex = historyIndex s, c_mask = mask_st s\<rparr>)))"

text \<open>Lines 427 to 443, from the result of the remote call on.\<close>

definition handleSubmitPrompt_finish ::
  "closure \<Rightarrow> thrown + string option \<Rightarrow> app_state \<Rightarrow> app_state" where
  "handleSubmitPrompt_finish c r s =
     (case r of
        Inr newImageBase64 \<Rightarrow>
          (let newImageData = (c_image c)\<lparr>base64 := newImageBase64\<rparr>;
               newHistory = slice_js (c_history c) 0 (c_historyIndex c + 1) @ [newImageData]
           in s\<lparr>history := newHistory, historyIndex := int (length newHistory) - 1,
                image_st := Some newImageData, mask_st := None, loading := False\<rparr>)
      | Inl err \<Rightarrow>
          (let errorMessage = (case err of Error m \<Rightarrow> m | NotAnError \<Rightarrow> ''An unknown error occurred.'')
           in s\<lparr>error := Some errorMessage, messages := slice_js (messages s) 0 (- 1),
                loading := False\<rparr>))"

text \<open>The whole handler when nothing else happens while the call is awaited.\<close>

definition handleSubmitPrompt ::
  "(GenerateContentRequest \<Rightarrow> api_outcome) \<Rightarrow> nat \<Rightarrow> js_string \<Rightarrow> app_state \<Rightarrow> app_state" where
  "handleSubmitPrompt api now currentPrompt s =
     (case handleSubmitPrompt_start now currentPrompt s of
        (s1, None) \<Rightarrow> s1
      | (s1, Some c) \<Rightarrow>
          handleSubmitPrompt_finish c
            (editImageWithGemini api (c_prompt c) (c_image c) (c_mask c)) s1)"

definition handleUndo :: "app_state \<Rightarrow> app_state" where
  "handleUndo s =
     (if historyIndex s > 0
      then (let newIndex = historyIndex s - 1
            in s\<lparr>historyIndex := newIndex, image_st := index_js (history s) newIndex,
                 mask_st := None\<rparr>)
      else s)"

definition handleRedo :: "app_state \<Rightarrow> app_state" where
  "handleRedo s =
     (if historyIndex s < int (length (history s)) - 1
      then (let newIndex = historyIndex s + 1
            in s\<lparr>historyIndex := newIndex, image_st := index_js (history s) newIndex,
                 mask_st := None\<rparr>)
      else s)"

definition handleClearImage :: "app_state \<Rightarrow> app_state" where
  "handleClearImage s =
     s\<lparr>image_st := None, messages := [], history := [], historyIndex := - 1,
       mask_st := None, error := None\<rparr>"

definition canUndo :: "app_state \<Rightarrow> bool" where
  "canUndo s \<longleftrightarrow> historyIndex s > 0"

definition canRedo :: "app_state \<Rightarrow> bool" where
  "canRedo s \<longleftrightarrow> historyIndex s < int (length (history s)) - 1"

text \<open>
  \<^verbatim>\<open>ChatPanel\<close>'s \<^verbatim>\<open>handleSubmit\<close> (lines 339 to 344), with the props \<^verbatim>\<open>App\<close> passes:
  \<^verbatim>\<open>imageLoaded\<close> is \<^verbatim>\<open>!!image\<close>, and a string is truthy when it is not empty.
\<close>

definition handleSubmit_start :: "nat \<Rightarrow> app_state \<Rightarrow> app_state \<times> closure option" where
  "handleSubmit_start now s =
     (if trim (prompt s) \<noteq> [] \<and> \<not> loading s \<and> image_st s \<noteq> None
      then handleSubmitPrompt_start now (prompt s) s
      else (s, None))"

text \<open>\<^verbatim>\<open>onMaskChange\<close> is \<^verbatim>\<open>setMask\<close>; a handler's calls of it are applied in order.\<close>

definition onMaskChange :: "ImageData option \<Rightarrow> app_state \<Rightarrow> app_state" where
  "onMaskChange m s = s\<lparr>mask_st := m\<rparr>"

definition emit :: "ImageData option list \<Rightarrow> app_state \<Rightarrow> app_state" where
  "emit ms s = fold onMaskChange ms s"

section \<open>The session: \<^verbatim>\<open>App\<close> with its remote calls in flight\<close>

text \<open>
  A remote call answers some time after it was made, and the toolbar stays usable in the
  meantime. The session keeps the calls that have not answered yet, each with the values
  its handler closed over.
\<close>

record session =
  app :: app_state
  pending :: "closure list"

datatype event =
    UploadStart
  | UploadFinish "thrown + ImageData"
  | Submit nat
  | Resolve nat api_outcome
  | Undo
  | Redo
  | ClearImage
  | MaskChange "ImageData option"
  | SetPrompt js_string
  | DismissError

definition remove_nth :: "nat \<Rightarrow> 'a list \<Rightarrow> 'a list" where
  "remove_nth i xs = take i xs @ drop (Suc i) xs"

fun step :: "event \<Rightarrow> session \<Rightarrow> session" where
  "step UploadStart ss = ss\<lparr>app := handleImageUpload_start (app ss)\<rparr>"
| "step (UploadFinish r) ss = ss\<lparr>app := handleImageUpload_finish r (app ss)\<rparr>"
| "step (Submit now) ss =
     (case handleSubmit_start now (app ss) of
        (a, None) \<Rightarrow> ss\<lparr>app := a\<rparr>
      | (a, Some c) \<Rightarrow> ss\<lparr>app := a, pending := pending ss @ [c]\<rparr>)"
| "step (Resolve i out) ss =
     (if i < length (pending ss)
      then ss\<lparr>app := handleSubmitPrompt_finish (pending ss ! i) (edit_result out) (app ss),
              pending := remove_nth i (pending ss)\<rparr>
      else ss)"
| "step Undo ss = ss\<lparr>app := handleUndo (app ss)\<rparr>"
| "step Redo ss = ss\<lparr>app := handleRedo (app ss)\<rparr>"
| "step ClearImage ss = ss\<lparr>app := handleClearImage (app ss)\<rparr>"
| "step (MaskChange m) ss = ss\<lparr>app := onMaskChange m (app ss)\<rparr>"
| "step (SetPrompt t) ss = ss\<lparr>app := (app ss)\<lparr>prompt := t\<rparr>\<rparr>"
| "step DismissError ss = ss\<lparr>app := (app ss)\<lparr>error := None\<rparr>\<rparr>"

definition run :: "event list \<Rightarrow> session \<Rightarrow> session" where
  "run es ss = fold step es ss"

definition start :: session where
  "start = \<lparr>app = initial, pending = []\<rparr>"

inductive reachable :: "session \<Rightarrow> bool" where
  reachable_start: "reachable start"
| reachable_step: "reachable ss \<Longrightarrow> reachable (step e ss)"

text \<open>The history cursor is in range, and the displayed image is the entry under it.\<close>

definition cursor_ok :: "app_state \<Rightarrow> bool" where
  "cursor_ok s \<longleftrightarrow>
     (if history s = [] then historyIndex s = - 1
      else 0 \<le> historyIndex s \<and> historyIndex s < int (length (history s)))"

definition displayed_ok :: "app_state \<Rightarrow> bool" where
  "displayed_ok s \<longleftrightarrow>
     image_st s = (if history s = [] then None else index_js (history s) (historyIndex s))"

section \<open>The mask overlay of \<^verbatim>\<open>ImageDisplay\<close>\<close>

text \<open>
  The canvas is modelled by what the handlers do to it: the state of its 2D context, and the
  strokes painted on the surface since it was last cleared (\<^verbatim>\<open>stroke()\<close> adds one,
  \<^verbatim>\<open>clearRect\<close> over the whole surface removes them all). Pointer coordinates are
  integers here; nothing below depends on their arithmetic.
\<close>

type_synonym point = "int \<times> int"

datatype composite = SourceOver | DestinationOut

record Context2D =
  lineWidth :: int
  lineCap :: string
  lineJoin :: string
  globalCompositeOperation :: composite
  strokeStyle :: string
  path :: "point list"

record Canvas =
  getContext :: "Context2D option"
  rect_left :: int
  rect_top :: int
  painted :: "Context2D list"

record display =
  canvasRef :: "Canvas option"
  isDrawing :: bool
  isBrushMode :: bool
  isErasing :: bool
  brushSize :: int
  brushColor :: string

text \<open>A surface nothing has been painted on since it was cleared is fully transparent.\<close>

definition no_marks :: "display \<Rightarrow> bool" where
  "no_marks d \<longleftrightarrow> (case canvasRef d of None \<Rightarrow> True | Some c \<Rightarrow> painted c = [])"

definition clearCanvas :: "display \<Rightarrow> display" where
  "clearCanvas d =
     (case canvasRef d of
        None \<Rightarrow> d
      | Some c \<Rightarrow>
          (case getContext c of
             None \<Rightarrow> d
           | Some ctx \<Rightarrow> d\<lparr>canvasRef := Some (c\<lparr>painted := []\<rparr>)\<rparr>))"

text \<open>
  Each handler returns the new state of the component and its calls of
  \<^verbatim>\<open>onMaskChange\<close>, in order. The effect of lines 123 to 126 runs when \<^verbatim>\<open>image\<close>
  changes.
\<close>

definition image_effect :: "display \<Rightarrow> display \<times> ImageData option list" where
  "image_effect d = (clearCanvas d, [None])"

definition getMousePos :: "point \<Rightarrow> display \<Rightarrow> point" where
  "getMousePos e d =
     (case canvasRef d of
        None \<Rightarrow> (0, 0)
      | Some c \<Rightarrow> (fst e - rect_left c, snd e - rect_top c))"

definition startDrawing :: "point \<Rightarrow> display \<Rightarrow> display" where
  "startDrawing e d =
     (if \<not> isBrushMode d then d
      else case canvasRef d of
             None \<Rightarrow> d
           | Some c \<Rightarrow>
               (case getContext c of
                  None \<Rightarrow> d
                | Some ctx \<Rightarrow>
                    (let ctx1 = ctx\<lparr>lineWidth := brushSize d, lineCap := ''round'',
                                    lineJoin := ''round''\<rparr>;
                         ctx2 = (if isErasing d
                                 then ctx1\<lparr>globalCompositeOperation := DestinationOut\<rparr>
                                 else ctx1\<lparr>globalCompositeOperation := SourceOver,
                                           strokeStyle := brushColor d\<rparr>);
                         ctx3 = ctx2\<lparr>path := [getMousePos e d]\<rparr>
                     in d\<lparr>isDrawing := True, canvasRef := Some (c\<lparr>getContext := Some ctx3\<rparr>)\<rparr>)))"

definition draw :: "point \<Rightarrow> display \<Rightarrow> display" where
  "draw e d =
     (if \<not> isDrawing d \<or> \<not> isBrushMode d then d
      else case canvasRef d of
             None \<Rightarrow> d
           | Some c \<Rightarrow>
               (case getContext c of
                  None \<Rightarrow> d
                | Some ctx \<Rightarrow>
                    (let ctx1 = ctx\<lparr>path := path ctx @ [getMousePos e d]\<rparr>
                     in d\<lparr>canvasRef := Some (c\<lparr>getContext := Some ctx1,
                                               painted := painted c @ [ctx1]\<rparr>)\<rparr>)))"

text \<open>\<^verbatim>\<open>closePath()\<close> adds the way back to the start of the path; it paints nothing.\<close>

definition closePath :: "Canvas \<Rightarrow> Canvas" where
  "closePath c =
     (case getContext c of
        None \<Rightarrow> c
      | Some ctx \<Rightarrow>
          c\<lparr>getContext := Some (ctx\<lparr>path := (case path ctx of
                                             p # q # ps \<Rightarrow> path ctx @ [p]
                                           | _ \<Rightarrow> path ctx)\<rparr>)\<rparr>)"

text \<open>
  \<^verbatim>\<open>s.split(',')[1]\<close>: the second piece, \<^verbatim>\<open>undefined\<close> for a string without a
  comma.
\<close>

fun split_on :: "char \<Rightarrow> string \<Rightarrow> string list" where
  "split_on c [] = [[]]"
| "split_on c (x # xs) =
     (if x = c then [] # split_on c xs
      else (case split_on c xs of [] \<Rightarrow> [[x]] | w # ws \<Rightarrow> (x # w) # ws))"

definition after_comma :: "string \<Rightarrow> string option" where
  "after_comma s = index_js (split_on CHR '','' s) 1"

text \<open>
  \<^verbatim>\<open>stopDrawing\<close> (lines 192 to 202). \<open>toDataURL\<close> is the browser's encoder of the
  surface, a parameter.
\<close>

definition stopDrawing :: "(Canvas \<Rightarrow> string) \<Rightarrow> display \<Rightarrow> display \<times> ImageData option list" where
  "stopDrawing toDataURL d =
     (if \<not> isDrawing d then (d, [])
      else case canvasRef d of
             None \<Rightarrow> (d\<lparr>isDrawing := False\<rparr>, [])
           | Some c \<Rightarrow>
               (let c1 = closePath c;
                    b = after_comma (toDataURL c1)
                in (d\<lparr>isDrawing := False, canvasRef := Some c1\<rparr>,
                    [Some \<lparr>base64 = b, mimeType = ''image/png''\<rparr>])))"

definition handleClearMask :: "display \<Rightarrow> display \<times> ImageData option list" where
  "handleClearMask d = (clearCanvas d, [None])"

section \<open>Concrete inputs\<close>

definition imgA :: ImageData where
  "imgA = \<lparr>base64 = Some ''AAAA'', mimeType = ''image/png''\<rparr>"

definition imgB :: ImageData where
  "imgB = \<lparr>base64 = Some ''BBBB'', mimeType = ''image/png''\<rparr>"

definition imgC :: ImageData where
  "imgC = \<lparr>base64 = Some ''CCCC'', mimeType = ''image/png''\<rparr>"

text \<open>A service that answers with a text part and then the image \<open>d\<close>.\<close>

definition api_image :: "string \<Rightarrow> GenerateContentRequest \<Rightarrow> api_outcome" where
  "api_image d req =
     Responds \<lparr>candidates = Some [\<lparr>cand_content = Some \<lparr>parts = Some
       [\<lparr>inlineData = None, part_text = Some (ascii ''done'')\<rparr>,
        \<lparr>inlineData = Some \<lparr>blob_data = Some d, blob_mimeType = Some ''image/png''\<rparr>, part_text = None\<rparr>]\<rparr>\<rparr>]\<rparr>"

text \<open>A service that cannot be reached, and one that answers with text only.\<close>

definition api_down :: "GenerateContentRequest \<Rightarrow> api_outcome" where
  "api_down req = Throws (Error ''fetch failed'')"

definition api_no_image :: "GenerateContentRequest \<Rightarrow> api_outcome" where
  "api_no_image req =
     Responds \<lparr>candidates = Some [\<lparr>cand_content = Some \<lparr>parts = Some
       [\<lparr>inlineData = None, part_text = Some (ascii ''I cannot edit this image.'')\<rparr>]\<rparr>\<rparr>]\<rparr>"

text \<open>
  A service whose answer has one part: inline data with a MIME type and no data. And one
  that sends such a part first and an image after it.
\<close>

definition api_no_data :: "GenerateContentRequest \<Rightarrow> api_outcome" where
  "api_no_data req =
     Responds \<lparr>candidates = Some [\<lparr>cand_content = Some \<lparr>parts = Some
       [\<lparr>inlineData = Some \<lparr>blob_data = None, blob_mimeType = Some ''image/png''\<rparr>,
         part_text = None\<rparr>]\<rparr>\<rparr>]\<rparr>"

definition api_data_second :: "GenerateContentRequest \<Rightarrow> api_outcome" where
  "api_data_second req =
     Responds \<lparr>candidates = Some [\<lparr>cand_content = Some \<lparr>parts = Some
       [\<lparr>inlineData = Some \<lparr>blob_data = None, blob_mimeType = Some ''image/png''\<rparr>,
         part_text = None\<rparr>,
        \<lparr>inlineData = Some \<lparr>blob_data = Some ''DDDD'', blob_mimeType = Some ''image/png''\<rparr>,
         part_text = None\<rparr>]\<rparr>\<rparr>]\<rparr>"

text \<open>Three versions in the history, the last one displayed.\<close>

definition state3 :: app_state where
  "state3 = \<lparr>image_st = Some imgC,
             messages = [\<lparr>msg_id = ''1'', role = User, content = ascii ''first''\<rparr>,
                         \<lparr>msg_id = ''2'', role = User, content = ascii ''second''\<rparr>],
             prompt = [], loading = False, error = None,
             history = [imgA, imgB, imgC], historyIndex = 2, mask_st = None\<rparr>"

definition masked3 :: app_state where
  "masked3 = state3\<lparr>mask_st := Some \<lparr>base64 = Some ''MMMM'', mimeType = ''image/png''\<rparr>,
                    historyIndex := 1, image_st := Some imgB\<rparr>"

definition blank3 :: app_state where
  "blank3 = state3\<lparr>prompt := [0x0020, 0x0020]\<rparr>"

text \<open>The same with a no-break space, an ideographic space and a byte order mark typed.\<close>

definition nbsp3 :: app_state where
  "nbsp3 = state3\<lparr>prompt := [0x00A0, 0x3000, 0xFEFF]\<rparr>"

definition typed3 :: app_state where
  "typed3 = state3\<lparr>prompt := ascii ''add a hat''\<rparr>"

definition closure3 :: closure where
  "closure3 = \<lparr>c_prompt = ascii ''add a hat'', c_image = imgC, c_history = [imgA, imgB, imgC],
               c_historyIndex = 2, c_mask = None\<rparr>"

text \<open>
  Two runs of the session. In the first the user steps back and clears the image while an
  edit is in flight, then uploads again; the second is two edits and one step back.
\<close>

definition trace1 :: "event list" where
  "trace1 = [UploadStart, UploadFinish (Inr imgA), SetPrompt (ascii ''make it grayscale''), Submit 7,
             Undo, Resolve 0 (api_image ''BBBB'' (edit_request (ascii ''make it grayscale'') imgA None)),
             Undo, ClearImage, UploadFinish (Inr imgC), Redo]"

definition trace2 :: "event list" where
  "trace2 = [UploadStart, UploadFinish (Inr imgA), SetPrompt (ascii ''make it grayscale''), Submit 7,
             Resolve 0 (api_image ''BBBB'' (edit_request (ascii ''make it grayscale'') imgA None)),
             SetPrompt (ascii ''add a hat''), Submit 8,
             Resolve 0 (api_image ''CCCC'' (edit_request (ascii ''add a hat'') imgB None)), Undo]"

text \<open>
  A mounted overlay in brush mode with nothing painted, an encoder, and the overlay after
  the mask was cleared and the pointer went down at one point.
\<close>

definition display0 :: display where
  "display0 =
     \<lparr>canvasRef = Some \<lparr>getContext = Some \<lparr>lineWidth = 1, lineCap = ''butt'', lineJoin = ''miter'',
                                           globalCompositeOperation = SourceOver,
                                           strokeStyle = ''#000000'', path = []\<rparr>,
                         rect_left = 0, rect_top = 0, painted = []\<rparr>,
      isDrawing = False, isBrushMode = True, isErasing = False, brushSize = 15,
      brushColor = ''rgba(239, 68, 68, 0.7)''\<rparr>"

definition png_url :: "Canvas \<Rightarrow> string" where
  "png_url c = ''data:image/png;base64,iVBORw0KGgo=''"

definition click0 :: display where
  "click0 = startDrawing (10, 10) (fst (handleClearMask display0))"

section \<open>Auxiliary facts\<close>

lemma slice_js_prefix:
  "0 \<le> k \<Longrightarrow> k < int (length xs) \<Longrightarrow> slice_js xs 0 (k + 1) = take (nat k + 1) xs"
  by (simp add: slice_js_def Let_def nat_add_distrib)

lemma slice_js_drop_last: "slice_js xs 0 (- 1) = butlast xs"
proof -
  have "nat (max (int (length xs) + - 1) 0) = length xs - 1"
    by arith
  then show ?thesis
    by (simp add: slice_js_def Let_def butlast_conv_take)
qed

text \<open>
  What the remote edit call does, for every answer of the service: the loop stops at the
  first part whose inline data is present and hands back its data field.
\<close>

lemma first_inline_find:
  "first_inline ps =
     map_option (\<lambda>q. case inlineData q of Some b \<Rightarrow> blob_data b | None \<Rightarrow> None)
       (find (\<lambda>q. inlineData q \<noteq> None) ps)"
  by (induction ps) (auto split: option.splits)

lemma editImageWithGemini_first_inline_part:
  "editImageWithGemini api p img m =
     (case api (edit_request p img m) of
        Throws e \<Rightarrow> Inl (Error ''Failed to process the image edit. Please try again.'')
      | Responds r \<Rightarrow>
          (case find (\<lambda>q. inlineData q \<noteq> None) (response_parts r) of
             None \<Rightarrow> Inl (Error ''Failed to process the image edit. Please try again.'')
           | Some q \<Rightarrow> Inr (case inlineData q of Some b \<Rightarrow> blob_data b | None \<Rightarrow> None)))"
  by (simp add: editImageWithGemini_def edit_result_def edit_try_def first_inline_find
        split: api_outcome.splits option.splits)

lemma api_image_result: "editImageWithGemini (api_image d) p img m = Inr (Some d)"
  by (simp add: editImageWithGemini_def edit_result_def edit_try_def api_image_def
        response_parts_def index_js_def)

lemma api_down_result:
  "editImageWithGemini api_down p img m =
     Inl (Error ''Failed to process the image edit. Please try again.'')"
  by (simp add: editImageWithGemini_def edit_result_def edit_try_def api_down_def)

text \<open>Both invariants of the history are kept by every event of the session.\<close>

lemma cursor_ok_step: "cursor_ok (app ss) \<Longrightarrow> cursor_ok (app (step e ss))"
  by (cases e)
     (auto simp: cursor_ok_def handleImageUpload_start_def handleImageUpload_finish_def
        handleSubmit_start_def handleSubmitPrompt_start_def handleSubmitPrompt_finish_def
        handleUndo_def handleRedo_def handleClearImage_def onMaskChange_def Let_def
        split: sum.splits option.splits if_splits prod.splits)

lemma displayed_ok_step: "displayed_ok (app ss) \<Longrightarrow> displayed_ok (app (step e ss))"
  by (cases e)
     (auto simp: displayed_ok_def index_js_def handleImageUpload_start_def
        handleImageUpload_finish_def handleSubmit_start_def handleSubmitPrompt_start_def
        handleSubmitPrompt_finish_def handleUndo_def handleRedo_def handleClearImage_def
        onMaskChange_def Let_def
        split: sum.splits option.splits if_splits prod.splits)

lemma reachable_inv: "reachable ss \<Longrightarrow> cursor_ok (app ss) \<and> displayed_ok (app ss)"
proof (induction rule: reachable.induct)
  case reachable_start
  show ?case by (simp add: start_def initial_def cursor_ok_def displayed_ok_def)
next
  case (reachable_step ss e)
  then show ?case by (simp add: cursor_ok_step displayed_ok_step)
qed

lemma reachable_run: "reachable ss \<Longrightarrow> reachable (run es ss)"
  unfolding run_def
  by (induction es arbitrary: ss) (simp_all add: reachable_step)

lemma trim_literals:
  "trim (ascii ''make it grayscale'') \<noteq> []" "trim (ascii ''add a hat'') \<noteq> []"
  by (simp_all add: trim_def white_space_def ascii_def)

lemma run_trace1:
  "app (run trace1 start) =
     \<lparr>image_st = Some imgC, messages = [], prompt = [], loading = False, error = None,
      history = [imgC], historyIndex = 0, mask_st = None\<rparr>"
  by (simp add: run_def trace1_def start_def initial_def handleImageUpload_start_def
        handleImageUpload_finish_def handleSubmit_start_def handleSubmitPrompt_start_def
        handleSubmitPrompt_finish_def handleUndo_def handleRedo_def handleClearImage_def
        trim_literals
        edit_result_def edit_try_def api_image_def response_parts_def index_js_def
        slice_js_def remove_nth_def imgA_def imgB_def imgC_def Let_def
        toString_nat.simps digit_char_def)

lemma run_trace2:
  "app (run trace2 start) =
     \<lparr>image_st = Some imgB,
      messages = [\<lparr>msg_id = ''7'', role = User, content = ascii ''make it grayscale''\<rparr>,
                  \<lparr>msg_id = ''8'', role = User, content = ascii ''add a hat''\<rparr>],
      prompt = [], loading = False, error = None,
      history = [imgA, imgB, imgC], historyIndex = 1, mask_st = None\<rparr>"
  by (simp add: run_def trace2_def start_def initial_def handleImageUpload_start_def
        handleImageUpload_finish_def handleSubmit_start_def handleSubmitPrompt_start_def
        handleSubmitPrompt_finish_def handleUndo_def trim_literals
        edit_result_def edit_try_def api_image_def response_parts_def index_js_def
        slice_js_def remove_nth_def imgA_def imgB_def imgC_def Let_def
        toString_nat.simps digit_char_def)

section \<open>The edit history\<close>

text \<open>
  C1. A successful edit, submitted in a state whose cursor \<open>k\<close> is inside the history
  \<open>h\<close>, replaces the history by \<open>take (k + 1) h\<close> followed by the new image and moves the
  cursor to \<open>k + 1\<close>, the new last index. In particular, from \<open>[A, B, C]\<close> at cursor 2, one
  step back and then a successful edit give \<open>[A, B, D]\<close> at cursor 2, where \<open>D\<close> is the
  displayed image \<open>B\<close> with the payload the service returned.
\<close>

theorem commit_truncates_then_appends:
  "(image_st s = Some img \<and> 0 \<le> historyIndex s \<and> historyIndex s < int (length (history s)) \<and>
    editImageWithGemini api p img (mask_st s) = Inr b \<longrightarrow>
      history (handleSubmitPrompt api now p s) =
        take (nat (historyIndex s) + 1) (history s) @ [img\<lparr>base64 := b\<rparr>] \<and>
      historyIndex (handleSubmitPrompt api now p s) = historyIndex s + 1 \<and>
      historyIndex (handleSubmitPrompt api now p s) =
        int (length (history (handleSubmitPrompt api now p s))) - 1) \<and>
   (history s = [A, B, C] \<and> historyIndex s = 2 \<and>
    editImageWithGemini api p B None = Inr d \<longrightarrow>
      history (handleSubmitPrompt api now p (handleUndo s)) = [A, B, B\<lparr>base64 := d\<rparr>] \<and>
      historyIndex (handleSubmitPrompt api now p (handleUndo s)) = 2)"
proof (intro conjI impI)
  assume h: "image_st s = Some img \<and> 0 \<le> historyIndex s \<and>
    historyIndex s < int (length (history s)) \<and>
    editImageWithGemini api p img (mask_st s) = Inr b"
  then have sl: "slice_js (history s) 0 (historyIndex s + 1) =
      take (nat (historyIndex s) + 1) (history s)"
    by (simp add: slice_js_prefix)
  from h sl show "history (handleSubmitPrompt api now p s) =
        take (nat (historyIndex s) + 1) (history s) @ [img\<lparr>base64 := b\<rparr>]"
    by (simp add: handleSubmitPrompt_def handleSubmitPrompt_start_def
          handleSubmitPrompt_finish_def Let_def)
  from h sl show "historyIndex (handleSubmitPrompt api now p s) = historyIndex s + 1"
    by (simp add: handleSubmitPrompt_def handleSubmitPrompt_start_def
          handleSubmitPrompt_finish_def Let_def)
       arith
  from h show "historyIndex (handleSubmitPrompt api now p s) =
        int (length (history (handleSubmitPrompt api now p s))) - 1"
    by (simp add: handleSubmitPrompt_def handleSubmitPrompt_start_def
          handleSubmitPrompt_finish_def Let_def)
next
  assume h: "history s = [A, B, C] \<and> historyIndex s = 2 \<and>
    editImageWithGemini api p B None = Inr d"
  have sl: "slice_js [A, B, C] 0 2 = [A, B]"
    by (simp add: slice_js_def Let_def numeral_2_eq_2)
  from h sl show "history (handleSubmitPrompt api now p (handleUndo s)) = [A, B, B\<lparr>base64 := d\<rparr>]"
    by (simp add: handleSubmitPrompt_def handleSubmitPrompt_start_def
          handleSubmitPrompt_finish_def handleUndo_def index_js_def Let_def)
  from h sl show "historyIndex (handleSubmitPrompt api now p (handleUndo s)) = 2"
    by (simp add: handleSubmitPrompt_def handleSubmitPrompt_start_def
          handleSubmitPrompt_finish_def handleUndo_def index_js_def Let_def)
qed

text \<open>The scenario of C1 on three concrete images, with a service that returns \<open>DDDD\<close>.\<close>

theorem commit_truncates_then_appends_witness:
  "image_st (handleUndo state3) = Some imgB \<and> historyIndex (handleUndo state3) = 1 \<and>
   editImageWithGemini (api_image ''DDDD'') (ascii ''add a hat'') imgB None = Inr (Some ''DDDD'') \<and>
   history state3 = [imgA, imgB, imgC] \<and> historyIndex state3 = 2 \<and>
   history (handleSubmitPrompt (api_image ''DDDD'') 5 (ascii ''add a hat'') (handleUndo state3)) =
     [imgA, imgB, \<lparr>base64 = Some ''DDDD'', mimeType = ''image/png''\<rparr>] \<and>
   historyIndex (handleSubmitPrompt (api_image ''DDDD'') 5 (ascii ''add a hat'') (handleUndo state3)) = 2"
proof -
  have u: "image_st (handleUndo state3) = Some imgB \<and> historyIndex (handleUndo state3) = 1 \<and>
           history (handleUndo state3) = [imgA, imgB, imgC] \<and> mask_st (handleUndo state3) = None"
    by (simp add: handleUndo_def state3_def index_js_def)
  have s: "history state3 = [imgA, imgB, imgC] \<and> historyIndex state3 = 2"
    by (simp add: state3_def)
  have r: "editImageWithGemini (api_image ''DDDD'') (ascii ''add a hat'') imgB None = Inr (Some ''DDDD'')"
    by (rule api_image_result)
  have b: "imgB\<lparr>base64 := Some ''DDDD''\<rparr> = \<lparr>base64 = Some ''DDDD'', mimeType = ''image/png''\<rparr>"
    by (simp add: imgB_def)
  from commit_truncates_then_appends
         [of "handleUndo state3" imgB "api_image ''DDDD''" "ascii ''add a hat''" "Some ''DDDD''" 5
             imgA imgB imgC "Some ''DDDD''"]
       commit_truncates_then_appends
         [of state3 imgC "api_image ''DDDD''" "ascii ''add a hat''" "Some ''DDDD''" 5
             imgA imgB imgC "Some ''DDDD''"]
       u s r b
  show ?thesis by simp
qed

text \<open>
  C2. When the remote call of a submission fails, the record of the instruction is first
  appended to the log, and after the failure the history, the cursor, the displayed image
  and the log are what they were before the submission. The failure branch itself, in any
  state, leaves history, cursor and image alone and removes exactly the last record.
\<close>

theorem failed_edit_restores_state:
  "(image_st s = Some img \<and> editImageWithGemini api p img (mask_st s) = Inl e \<longrightarrow>
      messages (fst (handleSubmitPrompt_start now p s)) =
        messages s @ [\<lparr>msg_id = toString_nat now, role = User, content = p\<rparr>] \<and>
      history (handleSubmitPrompt api now p s) = history s \<and>
      historyIndex (handleSubmitPrompt api now p s) = historyIndex s \<and>
      image_st (handleSubmitPrompt api now p s) = image_st s \<and>
      messages (handleSubmitPrompt api now p s) = messages s) \<and>
   history (handleSubmitPrompt_finish c (Inl e) t) = history t \<and>
   historyIndex (handleSubmitPrompt_finish c (Inl e) t) = historyIndex t \<and>
   image_st (handleSubmitPrompt_finish c (Inl e) t) = image_st t \<and>
   messages (handleSubmitPrompt_finish c (Inl e) t) = butlast (messages t)"
  by (simp add: handleSubmitPrompt_def handleSubmitPrompt_start_def handleSubmitPrompt_finish_def
        slice_js_drop_last Let_def)

text \<open>A failed edit on the three-version state, with the service down.\<close>

theorem failed_edit_restores_state_witness:
  "image_st state3 = Some imgC \<and>
   editImageWithGemini api_down (ascii ''add a hat'') imgC (mask_st state3) =
     Inl (Error ''Failed to process the image edit. Please try again.'') \<and>
   length (messages (fst (handleSubmitPrompt_start 5 (ascii ''add a hat'') state3))) = 3 \<and>
   history (handleSubmitPrompt api_down 5 (ascii ''add a hat'') state3) = [imgA, imgB, imgC] \<and>
   historyIndex (handleSubmitPrompt api_down 5 (ascii ''add a hat'') state3) = 2 \<and>
   image_st (handleSubmitPrompt api_down 5 (ascii ''add a hat'') state3) = Some imgC \<and>
   messages (handleSubmitPrompt api_down 5 (ascii ''add a hat'') state3) = messages state3"
proof -
  have i: "image_st state3 = Some imgC" "history state3 = [imgA, imgB, imgC]"
    "historyIndex state3 = 2" "length (messages state3) = 2"
    by (simp_all add: state3_def)
  have r: "editImageWithGemini api_down (ascii ''add a hat'') imgC (mask_st state3) =
     Inl (Error ''Failed to process the image edit. Please try again.'')"
    by (rule api_down_result)
  from failed_edit_restores_state
         [of state3 imgC api_down "ascii ''add a hat''"
             "Error ''Failed to process the image edit. Please try again.''" 5] i r
  show ?thesis by simp
qed

text \<open>
  C3. In every state the session can reach from the initial one (empty history, cursor
  \<open>-1\<close>) by uploads, submissions and their answers in any order, steps back and forward,
  and clearing the image, the cursor is an index of the history when the history is not
  empty, and it is \<open>-1\<close> exactly when the history is empty.
\<close>

theorem cursor_in_range:
  "reachable ss \<Longrightarrow>
     (history (app ss) \<noteq> [] \<longrightarrow>
        0 \<le> historyIndex (app ss) \<and> historyIndex (app ss) < int (length (history (app ss)))) \<and>
     (historyIndex (app ss) = - 1 \<longleftrightarrow> history (app ss) = [])"
proof -
  assume "reachable ss"
  then have "cursor_ok (app ss)" by (simp add: reachable_inv)
  then show ?thesis by (auto simp: cursor_ok_def split: if_splits)
qed

text \<open>After two edits and one step back: three versions, cursor 1.\<close>

theorem cursor_in_range_witness:
  "reachable (run trace2 start) \<and>
   history (app (run trace2 start)) = [imgA, imgB, imgC] \<and>
   historyIndex (app (run trace2 start)) = 1"
proof -
  have r: "reachable (run trace2 start)"
    by (rule reachable_run [OF reachable_start])
  from cursor_in_range [OF r] r show ?thesis
    by (simp add: run_trace2)
qed

text \<open>
  C4. In every reachable state the displayed image is the history entry under the cursor
  when the history is not empty, and absent when it is empty; and the same holds again
  after any further event.
\<close>

theorem displayed_image_is_history_entry:
  "reachable ss \<Longrightarrow>
     (history (app ss) \<noteq> [] \<longrightarrow>
        image_st (app ss) = Some (history (app ss) ! nat (historyIndex (app ss)))) \<and>
     (history (app ss) = [] \<longrightarrow> image_st (app ss) = None) \<and>
     (history (app (step e ss)) \<noteq> [] \<longrightarrow>
        image_st (app (step e ss)) =
          Some (history (app (step e ss)) ! nat (historyIndex (app (step e ss))))) \<and>
     (history (app (step e ss)) = [] \<longrightarrow> image_st (app (step e ss)) = None)"
proof -
  assume r: "reachable ss"
  have *: "(history a \<noteq> [] \<longrightarrow> image_st a = Some (history a ! nat (historyIndex a))) \<and>
           (history a = [] \<longrightarrow> image_st a = None)"
    if "cursor_ok a" "displayed_ok a" for a
    using that by (auto simp: cursor_ok_def displayed_ok_def index_js_def split: if_splits)
  from r have "cursor_ok (app ss)" "displayed_ok (app ss)"
    by (simp_all add: reachable_inv)
  moreover from r have "reachable (step e ss)" by (rule reachable_step)
  then have "cursor_ok (app (step e ss))" "displayed_ok (app (step e ss))"
    by (simp_all add: reachable_inv)
  ultimately show ?thesis using * by blast
qed

text \<open>
  A run with an edit answering after a step back, a clear and a new upload: the one entry
  is displayed; clearing the image then leaves no entry and no image.
\<close>

theorem displayed_image_is_history_entry_witness:
  "reachable (run trace1 start) \<and>
   history (app (run trace1 start)) = [imgC] \<and>
   image_st (app (run trace1 start)) = Some imgC \<and>
   history (app (step ClearImage (run trace1 start))) = [] \<and>
   image_st (app (step ClearImage (run trace1 start))) = None"
proof -
  have r: "reachable (run trace1 start)"
    by (rule reachable_run [OF reachable_start])
  from displayed_image_is_history_entry [OF r, of ClearImage] r show ?thesis
    by (simp add: run_trace1 handleClearImage_def)
qed

text \<open>
  C9, as stated, says that only a commit ever shrinks or grows the history. Clearing the
  image empties a history of three entries, and an upload replaces it by one entry (one
  entry more than the empty history, two fewer than three).
\<close>

theorem only_commit_resizes_counterexample:
  "history state3 = [imgA, imgB, imgC] \<and>
   history (app (step ClearImage \<lparr>app = state3, pending = []\<rparr>)) = [] \<and>
   history (app (step (UploadFinish (Inr imgA)) \<lparr>app = state3, pending = []\<rparr>)) = [imgA] \<and>
   history (app (step (UploadFinish (Inr imgA)) start)) = [imgA] \<and> history (app start) = []"
  by (simp add: state3_def start_def initial_def handleClearImage_def handleImageUpload_finish_def)

text \<open>
  C9, amended. Stepping back and stepping forward never change the history: stepping back
  lowers the cursor by one when it is above 0 and changes nothing otherwise, stepping
  forward raises it by one when it is below the last index and changes nothing otherwise.
  The only events that change the history are the successful answer of an edit (commit), a
  successful upload and clearing the image.
\<close>

theorem steps_keep_sequence:
  "history (handleUndo s) = history s \<and> history (handleRedo s) = history s \<and>
   historyIndex (handleUndo s) = (if historyIndex s > 0 then historyIndex s - 1 else historyIndex s) \<and>
   (\<not> historyIndex s > 0 \<longrightarrow> handleUndo s = s) \<and>
   historyIndex (handleRedo s) =
     (if historyIndex s < int (length (history s)) - 1 then historyIndex s + 1 else historyIndex s) \<and>
   (\<not> historyIndex s < int (length (history s)) - 1 \<longrightarrow> handleRedo s = s) \<and>
   (history (app (step e ss)) \<noteq> history (app ss) \<longrightarrow>
      (\<exists>i out d. e = Resolve i out \<and> i < length (pending ss) \<and> edit_result out = Inr d) \<or>
      (\<exists>img. e = UploadFinish (Inr img)) \<or> e = ClearImage)"
proof -
  have "history (app (step e ss)) \<noteq> history (app ss) \<longrightarrow>
      (\<exists>i out d. e = Resolve i out \<and> i < length (pending ss) \<and> edit_result out = Inr d) \<or>
      (\<exists>img. e = UploadFinish (Inr img)) \<or> e = ClearImage"
    by (cases e)
       (auto simp: handleImageUpload_start_def handleImageUpload_finish_def
          handleSubmit_start_def handleSubmitPrompt_start_def handleSubmitPrompt_finish_def
          handleUndo_def handleRedo_def onMaskChange_def Let_def
          split: sum.splits option.splits if_splits prod.splits)
  then show ?thesis
    by (simp add: handleUndo_def handleRedo_def Let_def)
qed

text \<open>
  Stepping forward at the last index and stepping back in the initial state change
  nothing; stepping back from cursor 2 gives cursor 1 over the same three entries.
\<close>

theorem steps_keep_sequence_witness:
  "\<not> historyIndex state3 < int (length (history state3)) - 1 \<and> handleRedo state3 = state3 \<and>
   \<not> historyIndex initial > 0 \<and> handleUndo initial = initial \<and>
   historyIndex (handleUndo state3) = 1 \<and> history (handleUndo state3) = [imgA, imgB, imgC] \<and>
   history (app (step ClearImage \<lparr>app = state3, pending = []\<rparr>)) \<noteq> history state3"
proof -
  have i: "historyIndex state3 = 2" "history state3 = [imgA, imgB, imgC]"
    "historyIndex initial = - 1"
    by (simp_all add: state3_def initial_def)
  have c: "history (app (step ClearImage \<lparr>app = state3, pending = []\<rparr>)) \<noteq> history state3"
    by (simp add: state3_def handleClearImage_def)
  from steps_keep_sequence [of state3 ClearImage "\<lparr>app = state3, pending = []\<rparr>"]
       steps_keep_sequence [of initial ClearImage "\<lparr>app = state3, pending = []\<rparr>"] i c
  show ?thesis by simp
qed

section \<open>The mask\<close>

text \<open>
  C5, as stated, says that ending a stroke on a fully transparent overlay emits an absent
  mask. After the mask was cleared, a pointer going down and up at one point paints
  nothing, and \<^verbatim>\<open>stopDrawing\<close> still emits a present mask: the encoding of the empty
  surface, which then is the mask of the application.
\<close>

theorem blank_surface_mask_counterexample:
  "no_marks click0 \<and>
   snd (stopDrawing png_url click0) =
     [Some \<lparr>base64 = Some ''iVBORw0KGgo='', mimeType = ''image/png''\<rparr>] \<and>
   mask_st (emit (snd (handleClearMask display0) @ snd (stopDrawing png_url click0)) initial) \<noteq> None"
  by (simp add: click0_def display0_def handleClearMask_def clearCanvas_def startDrawing_def
        getMousePos_def stopDrawing_def closePath_def no_marks_def png_url_def after_comma_def
        index_js_def emit_def onMaskChange_def initial_def Let_def)

text \<open>
  C5, amended. \<^verbatim>\<open>stopDrawing\<close> emits a mask exactly when a stroke is open and the canvas
  is mounted, and that mask is always present: the PNG encoding of the whole overlay as it
  is, with or without marks (closing the path paints nothing). With no stroke open it emits
  nothing. Clearing the mask emits the absent mask, so clearing followed by
  \<^verbatim>\<open>stopDrawing\<close> with no stroke open leaves the mask absent.
\<close>

theorem stopDrawing_emits_whole_surface:
  "(isDrawing d \<and> canvasRef d = Some c \<longrightarrow>
      snd (stopDrawing toDataURL d) =
        [Some \<lparr>base64 = after_comma (toDataURL (closePath c)), mimeType = ''image/png''\<rparr>] \<and>
      painted (closePath c) = painted c) \<and>
   (\<not> isDrawing d \<or> canvasRef d = None \<longrightarrow> snd (stopDrawing toDataURL d) = []) \<and>
   snd (handleClearMask d) = [None] \<and>
   (\<not> isDrawing d \<longrightarrow>
      mask_st (emit (snd (handleClearMask d) @
                     snd (stopDrawing toDataURL (fst (handleClearMask d)))) s) = None)"
proof -
  have a: "isDrawing (clearCanvas d) = isDrawing d"
    by (simp add: clearCanvas_def split: option.splits)
  have b: "painted (closePath c) = painted c"
    by (simp add: closePath_def split: option.splits)
  show ?thesis
    by (auto simp: a b stopDrawing_def handleClearMask_def emit_def onMaskChange_def Let_def
          split: option.splits)
qed

text \<open>
  With a stroke open on the cleared overlay a present mask is emitted; with none open,
  nothing is emitted and a mask that was set is absent after the clearing.
\<close>

theorem stopDrawing_emits_whole_surface_witness:
  "isDrawing click0 \<and> canvasRef click0 \<noteq> None \<and>
   snd (stopDrawing png_url click0) =
     [Some \<lparr>base64 = Some ''iVBORw0KGgo='', mimeType = ''image/png''\<rparr>] \<and>
   \<not> isDrawing display0 \<and>
   snd (stopDrawing png_url display0) = [] \<and>
   mask_st (emit (snd (handleClearMask display0) @
                  snd (stopDrawing png_url (fst (handleClearMask display0)))) masked3) = None"
proof -
  obtain c where c: "canvasRef click0 = Some c"
    by (simp add: click0_def display0_def handleClearMask_def clearCanvas_def startDrawing_def)
  have i: "isDrawing click0" "\<not> isDrawing display0"
    by (simp_all add: click0_def display0_def handleClearMask_def clearCanvas_def startDrawing_def)
  have u: "after_comma (png_url x) = Some ''iVBORw0KGgo=''" for x
    by (simp add: png_url_def after_comma_def index_js_def)
  from stopDrawing_emits_whole_surface [of click0 c png_url masked3] c i u
  have a: "snd (stopDrawing png_url click0) =
             [Some \<lparr>base64 = Some ''iVBORw0KGgo='', mimeType = ''image/png''\<rparr>]"
    by simp
  from stopDrawing_emits_whole_surface [of display0 c png_url masked3] i
  have b: "snd (stopDrawing png_url display0) = [] \<and>
           mask_st (emit (snd (handleClearMask display0) @
                          snd (stopDrawing png_url (fst (handleClearMask display0)))) masked3) = None"
    by blast
  from a b c i show ?thesis by simp
qed

text \<open>
  C6. Every event that changes the displayed image leaves the mask absent. The handlers
  that can change it reset the mask themselves: a successful upload, a successful edit, a
  step back that takes effect and a step forward that takes effect; and the effect that
  \<^verbatim>\<open>ImageDisplay\<close> runs on a change of the image emits the absent mask as well.
\<close>

theorem image_change_resets_mask:
  "(image_st (app (step e ss)) \<noteq> image_st (app ss) \<longrightarrow> mask_st (app (step e ss)) = None) \<and>
   mask_st (handleImageUpload_finish (Inr img) s) = None \<and>
   mask_st (handleSubmitPrompt_finish c (Inr b) s) = None \<and>
   (0 < historyIndex s \<longrightarrow> mask_st (handleUndo s) = None) \<and>
   (historyIndex s < int (length (history s)) - 1 \<longrightarrow> mask_st (handleRedo s) = None) \<and>
   snd (image_effect d) = [None]"
proof -
  have "image_st (app (step e ss)) \<noteq> image_st (app ss) \<longrightarrow> mask_st (app (step e ss)) = None"
    by (cases e)
       (auto simp: handleImageUpload_start_def handleImageUpload_finish_def
          handleSubmit_start_def handleSubmitPrompt_start_def handleSubmitPrompt_finish_def
          handleUndo_def handleRedo_def handleClearImage_def onMaskChange_def Let_def
          split: sum.splits option.splits if_splits prod.splits)
  then show ?thesis
    by (simp add: handleImageUpload_finish_def handleSubmitPrompt_finish_def handleUndo_def
          handleRedo_def image_effect_def Let_def)
qed

text \<open>A mask drawn over the second of three versions is gone after a step back or forward.\<close>

theorem image_change_resets_mask_witness:
  "image_st (app (step Undo \<lparr>app = masked3, pending = []\<rparr>)) \<noteq> image_st masked3 \<and>
   mask_st masked3 \<noteq> None \<and>
   mask_st (app (step Undo \<lparr>app = masked3, pending = []\<rparr>)) = None \<and>
   0 < historyIndex masked3 \<and> mask_st (handleUndo masked3) = None \<and>
   historyIndex masked3 < int (length (history masked3)) - 1 \<and> mask_st (handleRedo masked3) = None"
proof -
  have u: "image_st (handleUndo masked3) = Some imgA" "image_st masked3 = Some imgB"
    "historyIndex masked3 = 1" "length (history masked3) = 3" "mask_st masked3 \<noteq> None"
    by (simp_all add: masked3_def state3_def handleUndo_def index_js_def)
  have ne: "imgA \<noteq> imgB" by (simp add: imgA_def imgB_def)
  from image_change_resets_mask [of Undo "\<lparr>app = masked3, pending = []\<rparr>" imgA masked3] u ne
  show ?thesis by simp
qed

section \<open>The remote edit call\<close>

text \<open>
  C7 says that \<^verbatim>\<open>editImageWithGemini\<close> either returns the first inline image payload of
  the response or throws the one normalized error, also for a response with no image data.
  The code does neither when the first part with inline data carries no data: the loop
  returns \<^verbatim>\<open>part.inlineData.data\<close> unchecked, so the promise resolves with
  \<^verbatim>\<open>undefined\<close> and nothing is thrown, although the response holds no image data, and
  also when a later part holds an image. \<^verbatim>\<open>handleSubmitPrompt\<close> then takes the success
  branch: no error is shown, and an image without a payload is displayed and appended to
  the history. A response with no inline part at all does get the normalized error, and one
  whose inline part has data gets that data.
\<close>

theorem edit_resolves_undefined_without_data:
  "editImageWithGemini api_no_data (ascii ''add a hat'') imgC None = Inr None \<and>
   editImageWithGemini api_data_second (ascii ''add a hat'') imgC None = Inr None \<and>
   editImageWithGemini api_no_image (ascii ''add a hat'') imgC None =
     Inl (Error ''Failed to process the image edit. Please try again.'') \<and>
   editImageWithGemini (api_image ''DDDD'') (ascii ''add a hat'') imgC None = Inr (Some ''DDDD'') \<and>
   error (handleSubmitPrompt api_no_data 5 (ascii ''add a hat'') state3) = None \<and>
   image_st (handleSubmitPrompt api_no_data 5 (ascii ''add a hat'') state3) =
     Some \<lparr>base64 = None, mimeType = ''image/png''\<rparr> \<and>
   history (handleSubmitPrompt api_no_data 5 (ascii ''add a hat'') state3) =
     [imgA, imgB, imgC, \<lparr>base64 = None, mimeType = ''image/png''\<rparr>]"
proof -
  have a: "editImageWithGemini api_no_data p img m = Inr None" for p img m
    by (simp add: editImageWithGemini_def edit_result_def edit_try_def api_no_data_def
          response_parts_def index_js_def)
  have b: "editImageWithGemini api_data_second p img m = Inr None" for p img m
    by (simp add: editImageWithGemini_def edit_result_def edit_try_def api_data_second_def
          response_parts_def index_js_def)
  have sl: "slice_js [x, y, z] 0 3 = [x, y, z]" for x y z :: ImageData
    by (simp add: slice_js_def Let_def)
  have c: "handleSubmitPrompt api_no_data 5 (ascii ''add a hat'') state3 =
             state3\<lparr>error := None, prompt := [],
                    messages := messages state3 @
                      [\<lparr>msg_id = toString_nat 5, role = User, content = ascii ''add a hat''\<rparr>],
                    history := [imgA, imgB, imgC, imgC\<lparr>base64 := None\<rparr>], historyIndex := 3,
                    image_st := Some (imgC\<lparr>base64 := None\<rparr>), mask_st := None,
                    loading := False\<rparr>"
    by (simp add: handleSubmitPrompt_def handleSubmitPrompt_start_def
          handleSubmitPrompt_finish_def state3_def a sl Let_def)
  have n: "editImageWithGemini api_no_image p img m =
             Inl (Error ''Failed to process the image edit. Please try again.'')" for p img m
    by (simp add: editImageWithGemini_def edit_result_def edit_try_def api_no_image_def
          response_parts_def index_js_def)
  show ?thesis
    unfolding c by (simp add: a b n api_image_result imgC_def)
qed

section \<open>Submitting an instruction\<close>

text \<open>
  C8, as stated, says that a submission with a blank instruction is rejected with a
  validation error. With an image displayed and two spaces typed, submitting the form sets
  no error at all; and \<^verbatim>\<open>handleSubmitPrompt\<close> itself, given that blank text, appends
  its record to the log and goes on to the remote call.
\<close>

theorem blank_submission_counterexample:
  "image_st blank3 \<noteq> None \<and> trim (prompt blank3) = [] \<and>
   error (fst (handleSubmit_start 5 blank3)) = None \<and>
   snd (handleSubmitPrompt_start 5 (prompt blank3) blank3) \<noteq> None \<and>
   messages (fst (handleSubmitPrompt_start 5 (prompt blank3) blank3)) \<noteq> messages blank3"
  by (simp add: blank3_def state3_def handleSubmit_start_def handleSubmitPrompt_start_def
        trim_def white_space_def Let_def)

text \<open>
  C8, amended. Submitting the form while the instruction is blank after trimming, a
  request is loading or no image is displayed does nothing: the whole state is unchanged,
  the error included, and no remote call is made. \<^verbatim>\<open>handleSubmitPrompt\<close> checks the
  image only: called with no image it sets the error "Please upload an image before
  submitting a prompt.", changes nothing else and makes no remote call.
\<close>

theorem rejected_submission_changes_nothing:
  "(trim (prompt s) = [] \<or> loading s \<or> image_st s = None \<longrightarrow>
      handleSubmit_start now s = (s, None)) \<and>
   (image_st s = None \<longrightarrow>
      handleSubmitPrompt_start now p s =
        (s\<lparr>error := Some ''Please upload an image before submitting a prompt.''\<rparr>, None) \<and>
      handleSubmitPrompt api now p s =
        s\<lparr>error := Some ''Please upload an image before submitting a prompt.''\<rparr>)"
  by (auto simp: handleSubmit_start_def handleSubmitPrompt_start_def handleSubmitPrompt_def)

text \<open>The blank form over three versions, and a submission in the initial state.\<close>

theorem rejected_submission_changes_nothing_witness:
  "trim (prompt blank3) = [] \<and> handleSubmit_start 5 blank3 = (blank3, None) \<and>
   trim (prompt nbsp3) = [] \<and> handleSubmit_start 5 nbsp3 = (nbsp3, None) \<and>
   image_st initial = None \<and> handleSubmit_start 5 initial = (initial, None) \<and>
   snd (handleSubmitPrompt_start 5 (ascii ''add a hat'') initial) = None \<and>
   history (handleSubmitPrompt api_down 5 (ascii ''add a hat'') initial) = [] \<and>
   error (handleSubmitPrompt api_down 5 (ascii ''add a hat'') initial) =
     Some ''Please upload an image before submitting a prompt.''"
proof -
  have t: "trim (prompt blank3) = []"
    by (simp add: blank3_def state3_def trim_def white_space_def)
  have i: "image_st initial = None" "history initial = []"
    by (simp_all add: initial_def)
  have n: "trim (prompt nbsp3) = []"
    by (simp add: nbsp3_def state3_def trim_def white_space_def)
  from rejected_submission_changes_nothing [of blank3 5 "ascii ''add a hat''" api_down]
       rejected_submission_changes_nothing [of nbsp3 5 "ascii ''add a hat''" api_down]
       rejected_submission_changes_nothing [of initial 5 "ascii ''add a hat''" api_down] t n i
  show ?thesis by simp
qed

text \<open>
  C10. When a submission is accepted, the input field is empty in the state in which the
  remote call is made, and it is still empty after the whole handler has run, whichever
  way the call ends. The failure branch leaves the field as it finds it: after a failed
  call the log is what it was before the submission, and the typed instruction is not put
  back.
\<close>

theorem prompt_cleared_before_call_not_restored:
  "(image_st s = Some img \<longrightarrow>
      snd (handleSubmitPrompt_start now p s) \<noteq> None \<and>
      prompt (fst (handleSubmitPrompt_start now p s)) = [] \<and>
      prompt (handleSubmitPrompt api now p s) = []) \<and>
   (trim (prompt s) \<noteq> [] \<and> \<not> loading s \<and> image_st s = Some img \<longrightarrow>
      snd (handleSubmit_start now s) \<noteq> None \<and>
      prompt (fst (handleSubmit_start now s)) = [] \<and>
      prompt (fst (handleSubmit_start now s)) \<noteq> prompt s \<and>
      prompt (handleSubmitPrompt_finish c (Inl e) (fst (handleSubmit_start now s))) = [] \<and>
      messages (handleSubmitPrompt_finish c (Inl e) (fst (handleSubmit_start now s))) = messages s) \<and>
   prompt (handleSubmitPrompt_finish c (Inl e) t) = prompt t"
proof -
  have "trim (prompt s) \<noteq> [] \<Longrightarrow> prompt s \<noteq> []"
    by (auto simp: trim_def)
  then show ?thesis
    by (auto simp: handleSubmit_start_def handleSubmitPrompt_start_def handleSubmitPrompt_def
          handleSubmitPrompt_finish_def slice_js_drop_last Let_def split: sum.splits)
qed

text \<open>The instruction "add a hat" over three versions, with the service down.\<close>

theorem prompt_cleared_before_call_not_restored_witness:
  "image_st typed3 = Some imgC \<and> trim (prompt typed3) \<noteq> [] \<and> \<not> loading typed3 \<and>
   prompt typed3 = (ascii ''add a hat'') \<and>
   snd (handleSubmit_start 5 typed3) = Some closure3 \<and>
   prompt (fst (handleSubmit_start 5 typed3)) = [] \<and>
   prompt (handleSubmitPrompt api_down 5 (ascii ''add a hat'') typed3) = [] \<and>
   messages (handleSubmitPrompt_finish closure3 (Inl (Error ''x'')) (fst (handleSubmit_start 5 typed3))) =
     messages typed3"
proof -
  have i: "image_st typed3 = Some imgC" "\<not> loading typed3" "prompt typed3 = (ascii ''add a hat'')"
    by (simp_all add: typed3_def state3_def)
  have t: "trim (prompt typed3) \<noteq> []"
    by (simp add: typed3_def state3_def trim_literals)
  have c: "snd (handleSubmit_start 5 typed3) = Some closure3"
    by (simp add: handleSubmit_start_def handleSubmitPrompt_start_def t Let_def)
       (simp add: typed3_def state3_def closure3_def)
  from prompt_cleared_before_call_not_restored
         [of typed3 imgC 5 "ascii ''add a hat''" api_down closure3 "Error ''x''"] i t c
  show ?thesis by simp
qed

end
